theory Spec2Isabelle
  imports Complex_Main
begin

section \<open>Python values, exceptions and outcomes\<close>

text \<open>
  The development embeds \<^verbatim>\<open>airflow/utils/mailbox.py\<close> (class \<^verbatim>\<open>Mailbox\<close>).
  The mailbox is run by one thread at a time: a call sees the queue as it is when the call
  starts, and nothing is put into it while the call waits.

  A call either returns a value, raises an exception (all exceptions modelled here are
  subclasses of Python's \<^verbatim>\<open>Exception\<close>), or never returns (\<open>Blocks\<close>).
\<close>

type_synonym bytes = string

datatype exn =
  StoreFailure | PicklingError | UnpicklingError | Empty | ValueError | TypeError | OverflowError

datatype 'a outcome = Returns 'a | Raises exn | Blocks

text \<open>
  \<^verbatim>\<open>notification_service.base_notification.BaseEvent\<close>: \<^verbatim>\<open>version\<close> and
  \<^verbatim>\<open>create_time\<close> may be \<^verbatim>\<open>None\<close>.
\<close>

record base_event =
  key :: string
  event_value :: string
  event_type :: string
  version :: "int option"
  create_time :: "int option"

text \<open>
  The objects a caller can pass to \<^verbatim>\<open>send_message\<close> and that \<^verbatim>\<open>pickle.loads\<close>
  can give back: \<^verbatim>\<open>None\<close>, a \<^verbatim>\<open>BaseEvent\<close>, or any other object.
\<close>

datatype pyobj = PyNone | PyBaseEvent base_event | PyObject string

section \<open>The message store\<close>

text \<open>
  Modelled from the spec: the classes \<^verbatim>\<open>Message\<close>, \<^verbatim>\<open>MessageState\<close>,
  \<^verbatim>\<open>IdentifiedMessage\<close> (\<^verbatim>\<open>airflow.models.message\<close>) and \<^verbatim>\<open>EventProgress\<close>
  (\<^verbatim>\<open>airflow.models.event_progress\<close>) are not among the source files. Their fields are
  those of the spec's Envelope, IdentifiedMessage and ProgressLedger row; the attribute names
  are the ones \<^verbatim>\<open>mailbox.py\<close> uses. An attribute that is \<^verbatim>\<open>None\<close> until it is
  assigned is an option.
\<close>

datatype message_state = QUEUED | Extension string

record message =
  message_id :: "nat option"
  data :: bytes
  state :: "message_state option"
  m_scheduling_job_id :: "int option"
  queue_time :: "int option"

record identified_message =
  serialized_message :: bytes
  msg_id :: "nat option"

record event_progress =
  ep_scheduling_job_id :: "int option"
  last_event_time :: int
  last_event_version :: int

text \<open>
  Modelled from the spec: the external transactional store. It holds the envelope rows, the
  progress ledger (one row per \<^verbatim>\<open>scheduling_job_id\<close>, the unique key) and the next
  identifier it will assign.
\<close>

record store =
  envelopes :: "message list"
  ledger :: "int option \<Rightarrow> (int \<times> int) option"
  next_id :: nat

text \<open>
  What the mailbox cannot control: the pickle codec, the clock, and whether an operation of
  the store session fails (an outage).
\<close>

datatype session_op = Merge | Add | Commit | Rollback

record env =
  dumps :: "pyobj \<Rightarrow> exn + bytes"
  loads :: "bytes \<Rightarrow> exn + pyobj"
  utcnow :: int
  fault :: "session_op \<Rightarrow> exn option"

text \<open>
  Modelled from the spec: a session is one transaction over the store. \<^verbatim>\<open>merge\<close> and
  \<^verbatim>\<open>add\<close> only register pending writes; \<^verbatim>\<open>commit\<close> applies all of them at once or
  none of them; \<^verbatim>\<open>rollback\<close> forgets them. A commit or rollback of a session with no
  pending write does not reach the store.
\<close>

record session =
  committed :: store
  merged :: "event_progress list"
  added :: "message list"

definition new_session :: "store \<Rightarrow> session" where
  "new_session db = \<lparr>committed = db, merged = [], added = []\<rparr>"

definition session_merge :: "env \<Rightarrow> session \<Rightarrow> event_progress \<Rightarrow> exn + session" where
  "session_merge env s p =
     (case fault env Merge of
        Some e \<Rightarrow> Inl e
      | None \<Rightarrow> Inr (s\<lparr>merged := merged s @ [p]\<rparr>))"

definition session_add :: "env \<Rightarrow> session \<Rightarrow> message \<Rightarrow> exn + session" where
  "session_add env s m =
     (case fault env Add of
        Some e \<Rightarrow> Inl e
      | None \<Rightarrow> Inr (s\<lparr>added := added s @ [m]\<rparr>))"

definition upsert_progress :: "event_progress \<Rightarrow> store \<Rightarrow> store" where
  "upsert_progress p db =
     db\<lparr>ledger := (ledger db)(ep_scheduling_job_id p \<mapsto> (last_event_time p, last_event_version p))\<rparr>"

definition insert_message :: "message \<Rightarrow> store \<Rightarrow> store" where
  "insert_message m db =
     db\<lparr>envelopes := envelopes db @ [m\<lparr>message_id := Some (next_id db)\<rparr>],
        next_id := Suc (next_id db)\<rparr>"

text \<open>
  A successful commit also returns the rows it inserted, in the order they were added, with
  the identifiers the store assigned: the session writes them back to the added objects.
\<close>

definition session_commit :: "env \<Rightarrow> session \<Rightarrow> exn + (session \<times> message list)" where
  "session_commit env s =
     (if merged s = [] \<and> added s = [] then Inr (s, [])
      else case fault env Commit of
        Some e \<Rightarrow> Inl e
      | None \<Rightarrow>
          (let db = fold insert_message (added s) (fold upsert_progress (merged s) (committed s))
           in Inr (\<lparr>committed = db, merged = [], added = []\<rparr>,
                   drop (length (envelopes (committed s))) (envelopes db))))"

definition session_rollback :: "env \<Rightarrow> session \<Rightarrow> exn + session" where
  "session_rollback env s =
     (if merged s = [] \<and> added s = [] then Inr s
      else case fault env Rollback of
        Some e \<Rightarrow> Inl e
      | None \<Rightarrow> Inr (s\<lparr>merged := [], added := []\<rparr>))"

text \<open>
  Modelled from the spec: the decorator \<^verbatim>\<open>provide_session\<close>
  (\<^verbatim>\<open>airflow.utils.session\<close>) is not among the source files. The store transaction is
  scoped per call: acquired, used, released. The session is opened on the store, committed
  when the function returns, rolled back when it raises, and closed; what was not committed
  is lost.
\<close>

definition provide_session ::
    "env \<Rightarrow> (session \<Rightarrow> 'a outcome \<times> session) \<Rightarrow> store \<Rightarrow> 'a outcome \<times> store" where
  "provide_session env f db =
     (case f (new_session db) of
        (Returns r, s) \<Rightarrow>
          (case session_commit env s of
             Inr (s', flushed) \<Rightarrow> (Returns r, committed s')
           | Inl e \<Rightarrow>
               (case session_rollback env s of
                  Inl e' \<Rightarrow> (Raises e', committed s)
                | Inr s' \<Rightarrow> (Raises e, committed s')))
      | (Raises e, s) \<Rightarrow>
          (case session_rollback env s of
             Inl e' \<Rightarrow> (Raises e', committed s)
           | Inr s' \<Rightarrow> (Raises e, committed s'))
      | (Blocks, s) \<Rightarrow> (Blocks, committed s))"

section \<open>The in-memory queue\<close>

text \<open>
  Python's \<^verbatim>\<open>queue.Queue()\<close> with no size limit, front of the queue first.
  \<^verbatim>\<open>put\<close> never blocks. \<^verbatim>\<open>get()\<close> waits until an item is there.
\<close>

definition queue_put :: "'a list \<Rightarrow> 'a \<Rightarrow> 'a list" where
  "queue_put q x = q @ [x]"

definition queue_qsize :: "'a list \<Rightarrow> nat" where
  "queue_qsize q = length q"

definition queue_get :: "'a list \<Rightarrow> 'a outcome \<times> 'a list" where
  "queue_get q = (case q of [] \<Rightarrow> (Blocks, q) | x # rest \<Rightarrow> (Returns x, rest))"

text \<open>
  The values a caller can pass as \<^verbatim>\<open>timeout\<close>: \<^verbatim>\<open>None\<close>; a finite number (an
  \<^verbatim>\<open>int\<close> of any size, or a \<^verbatim>\<open>float\<close>); the floats \<^verbatim>\<open>nan\<close>, \<^verbatim>\<open>inf\<close> and
  \<^verbatim>\<open>-inf\<close>; and any other value, for which the comparison with \<^verbatim>\<open>0\<close> or the
  addition to the clock raises the given exception (\<^verbatim>\<open>TypeError\<close> for a string).
\<close>

datatype timeout =
    TimeoutNone
  | TimeoutNumber real
  | TimeoutNaN
  | TimeoutInfinity
  | TimeoutMinusInfinity
  | TimeoutOther exn

text \<open>
  Two constants of CPython on a 64-bit platform. \<^verbatim>\<open>threading.TIMEOUT_MAX\<close> is the
  longest wait a lock accepts; a longer one raises \<^verbatim>\<open>OverflowError\<close>. An \<^verbatim>\<open>int\<close>
  from \<open>float_overflow\<close> on is too large to convert to a \<^verbatim>\<open>float\<close> (it would round to
  \<open>2 ^ 1024\<close>), and no \<^verbatim>\<open>float\<close> is that large.
\<close>

definition TIMEOUT_MAX :: real where
  "TIMEOUT_MAX = 9223372036"

definition float_overflow :: real where
  "float_overflow = 2 ^ 1024 - 2 ^ 970"

text \<open>
  \<^verbatim>\<open>get(timeout=t)\<close>, in the order of \<^verbatim>\<open>Queue.get\<close>:
  \<^item> \<^verbatim>\<open>timeout is None\<close>: wait as \<^verbatim>\<open>get()\<close> does;
  \<^item> \<^verbatim>\<open>timeout < 0\<close>: a comparison that raises leaves with that exception, a negative
    number raises \<^verbatim>\<open>ValueError\<close>;
  \<^item> \<^verbatim>\<open>endtime = time() + timeout\<close>: an \<^verbatim>\<open>int\<close> too large for a \<^verbatim>\<open>float\<close>
    raises \<^verbatim>\<open>OverflowError\<close>, whatever the queue holds;
  \<^item> the loop \<^verbatim>\<open>while not self._qsize()\<close> is not entered when an item is there, and the
    item is popped. On an empty queue \<^verbatim>\<open>nan\<close> never expires (\<^verbatim>\<open>remaining <= 0.0\<close>
    is false and \<^verbatim>\<open>wait(nan)\<close> returns at once, so the loop spins), a wait longer than
    \<^verbatim>\<open>TIMEOUT_MAX\<close> raises \<^verbatim>\<open>OverflowError\<close>, and any other wait expires and raises
    \<^verbatim>\<open>Empty\<close>.
\<close>

definition queue_get_timeout :: "'a list \<Rightarrow> timeout \<Rightarrow> 'a outcome \<times> 'a list" where
  "queue_get_timeout q t =
     (case t of
        TimeoutNone \<Rightarrow> queue_get q
      | TimeoutOther e \<Rightarrow> (Raises e, q)
      | TimeoutMinusInfinity \<Rightarrow> (Raises ValueError, q)
      | TimeoutNaN \<Rightarrow> (case q of [] \<Rightarrow> (Blocks, q) | x # rest \<Rightarrow> (Returns x, rest))
      | TimeoutInfinity \<Rightarrow>
          (case q of [] \<Rightarrow> (Raises OverflowError, q) | x # rest \<Rightarrow> (Returns x, rest))
      | TimeoutNumber n \<Rightarrow>
          (if n < 0 then (Raises ValueError, q)
           else if float_overflow \<le> n then (Raises OverflowError, q)
           else case q of
                  [] \<Rightarrow> (Raises (if TIMEOUT_MAX < n then OverflowError else Empty), q)
                | x # rest \<Rightarrow> (Returns x, rest)))"

section \<open>The mailbox\<close>

datatype log_record = Warning string | Error exn

record mailbox =
  queue :: "identified_message list"
  scheduling_job_id :: "int option"
  logged :: "log_record list"

definition Mailbox_init :: mailbox where
  "Mailbox_init = \<lparr>queue = [], scheduling_job_id = None, logged = []\<rparr>"

text \<open>Python's truth value of \<^verbatim>\<open>self.scheduling_job_id\<close>: \<^verbatim>\<open>None\<close> and \<^verbatim>\<open>0\<close> are false.\<close>

definition truthy :: "int option \<Rightarrow> bool" where
  "truthy j = (case j of None \<Rightarrow> False | Some n \<Rightarrow> n \<noteq> 0)"

text \<open>
  The test \<^verbatim>\<open>isinstance(message, BaseEvent) and message.version is not None and
  message.create_time is not None\<close>, giving the pair \<open>(create_time, version)\<close> when it holds.
\<close>

fun carries_progress :: "pyobj \<Rightarrow> (int \<times> int) option" where
  "carries_progress (PyBaseEvent ev) =
     (case version ev of
        None \<Rightarrow> None
      | Some v \<Rightarrow> (case create_time ev of None \<Rightarrow> None | Some t \<Rightarrow> Some (t, v)))"
| "carries_progress PyNone = None"
| "carries_progress (PyObject x) = None"

text \<open>
  Modelled from the spec: the constructor \<^verbatim>\<open>Message(message)\<close> serializes the payload;
  every other attribute is unset.
\<close>

definition Message :: "env \<Rightarrow> pyobj \<Rightarrow> exn + message" where
  "Message env obj =
     (case dumps env obj of
        Inl e \<Rightarrow> Inl e
      | Inr b \<Rightarrow> Inr \<lparr>message_id = None, data = b, state = None,
                      m_scheduling_job_id = None, queue_time = None\<rparr>)"

text \<open>The \<^verbatim>\<open>try\<close> block of \<^verbatim>\<open>_save_message_to_db\<close>, with the session as it is when the
  block is left.\<close>

definition save_message_try ::
    "env \<Rightarrow> mailbox \<Rightarrow> pyobj \<Rightarrow> session \<Rightarrow> (exn + identified_message) \<times> session" where
  "save_message_try env mb message s =
     (case (case carries_progress message of
              Some (t, v) \<Rightarrow>
                session_merge env s
                  \<lparr>ep_scheduling_job_id = scheduling_job_id mb,
                   last_event_time = t, last_event_version = v\<rparr>
            | None \<Rightarrow> Inr s) of
        Inl e \<Rightarrow> (Inl e, s)
      | Inr s1 \<Rightarrow>
          (case Message env message of
             Inl e \<Rightarrow> (Inl e, s1)
           | Inr m \<Rightarrow>
               (let message_obj = m\<lparr>state := Some QUEUED,
                                     m_scheduling_job_id := scheduling_job_id mb,
                                     queue_time := Some (utcnow env)\<rparr>
                in case session_add env s1 message_obj of
                     Inl e \<Rightarrow> (Inl e, s1)
                   | Inr s2 \<Rightarrow>
                       (case session_commit env s2 of
                          Inl e \<Rightarrow> (Inl e, s2)
                        | Inr (s3, flushed) \<Rightarrow>
                            (let message_obj' =
                                   (case rev flushed of [] \<Rightarrow> message_obj | row # earlier \<Rightarrow> row)
                             in (Inr \<lparr>serialized_message = data message_obj',
                                      msg_id = message_id message_obj'\<rparr>, s3))))))"

text \<open>\<^verbatim>\<open>_save_message_to_db\<close> on a given session: the handler rolls back and raises again.\<close>

definition save_message_to_db_session ::
    "env \<Rightarrow> mailbox \<Rightarrow> pyobj \<Rightarrow> session \<Rightarrow> identified_message outcome \<times> session" where
  "save_message_to_db_session env mb message s =
     (case save_message_try env mb message s of
        (Inr im, s') \<Rightarrow> (Returns im, s')
      | (Inl e, s') \<Rightarrow>
          (case session_rollback env s' of
             Inl e' \<Rightarrow> (Raises e', s')
           | Inr s'' \<Rightarrow> (Raises e, s'')))"

text \<open>\<^verbatim>\<open>_save_message_to_db\<close> as \<^verbatim>\<open>send_message\<close> calls it, with no session given.\<close>

definition save_message_to_db ::
    "env \<Rightarrow> mailbox \<Rightarrow> pyobj \<Rightarrow> store \<Rightarrow> identified_message outcome \<times> store" where
  "save_message_to_db env mb message db =
     provide_session env (save_message_to_db_session env mb message) db"

text \<open>
  \<^verbatim>\<open>send_message\<close> has no \<^verbatim>\<open>return\<close> statement: when it returns, it returns
  \<^verbatim>\<open>None\<close>. Its result type leaves room for an \<^verbatim>\<open>IdentifiedMessage\<close>.
\<close>

definition send_message ::
    "env \<Rightarrow> pyobj \<Rightarrow> mailbox \<Rightarrow> store \<Rightarrow> identified_message option outcome \<times> mailbox \<times> store" where
  "send_message env message mb db =
     (let mb1 = (if \<not> truthy (scheduling_job_id mb)
                 then mb\<lparr>logged := logged mb @
                        [Warning ''scheduling_job_id not set, missing messages cannot be recovered.'']\<rparr>
                 else mb)
      in case save_message_to_db env mb1 message db of
           (Returns identified_message, db') \<Rightarrow>
             (Returns None, mb1\<lparr>queue := queue_put (queue mb1) identified_message\<rparr>, db')
         | (Raises e, db') \<Rightarrow> (Raises e, mb1, db')
         | (Blocks, db') \<Rightarrow> (Blocks, mb1, db'))"

definition send_identified_message ::
    "identified_message \<Rightarrow> mailbox \<Rightarrow> identified_message option outcome \<times> mailbox" where
  "send_identified_message message mb =
     (Returns None, mb\<lparr>queue := queue_put (queue mb) message\<rparr>)"

definition get_message :: "env \<Rightarrow> mailbox \<Rightarrow> pyobj outcome \<times> mailbox" where
  "get_message env mb =
     (case queue_get (queue mb) of
        (Blocks, q) \<Rightarrow> (Blocks, mb)
      | (Raises e, q) \<Rightarrow> (Raises e, mb\<lparr>queue := q\<rparr>)
      | (Returns identified_message, q) \<Rightarrow>
          (case loads env (serialized_message identified_message) of
             Inr obj \<Rightarrow> (Returns obj, mb\<lparr>queue := q\<rparr>)
           | Inl e \<Rightarrow> (Returns PyNone, mb\<lparr>queue := q, logged := logged mb @ [Error e]\<rparr>)))"

definition get_message_with_timeout ::
    "timeout \<Rightarrow> mailbox \<Rightarrow> identified_message option outcome \<times> mailbox" where
  "get_message_with_timeout t mb =
     (case queue_get_timeout (queue mb) t of
        (Returns identified_message, q) \<Rightarrow> (Returns (Some identified_message), mb\<lparr>queue := q\<rparr>)
      | (Raises e, q) \<Rightarrow> (Returns None, mb\<lparr>queue := q\<rparr>)
      | (Blocks, q) \<Rightarrow> (Blocks, mb))"

definition get_identified_message :: "mailbox \<Rightarrow> identified_message option outcome \<times> mailbox" where
  "get_identified_message mb = get_message_with_timeout (TimeoutNumber 1) mb"

definition length_mailbox :: "mailbox \<Rightarrow> nat" where
  "length_mailbox mb = queue_qsize (queue mb)"

definition set_scheduling_job_id :: "int option \<Rightarrow> mailbox \<Rightarrow> mailbox" where
  "set_scheduling_job_id j mb = mb\<lparr>scheduling_job_id := j\<rparr>"

section \<open>Producers and consumers\<close>

text \<open>
  One producer thread: a list of \<^verbatim>\<open>send_message\<close> calls, each under the conditions
  (\<open>env\<close>) that hold when it is made. A call that raises leaves the producer running (the
  caller owns the retry policy). The result is the store after each call.
\<close>

fun producer_run :: "(env \<times> pyobj) list \<Rightarrow> mailbox \<Rightarrow> store \<Rightarrow> store list" where
  "producer_run [] mb db = []"
| "producer_run ((env, message) # rest) mb db =
     (case send_message env message mb db of
        (r, mb', db') \<Rightarrow> db' # producer_run rest mb' db')"

text \<open>The events of a list of calls that carry both \<^verbatim>\<open>create_time\<close> and
  \<^verbatim>\<open>version\<close>, as pairs \<open>(create_time, version)\<close> in send order.\<close>

fun watermarks :: "(env \<times> pyobj) list \<Rightarrow> (int \<times> int) list" where
  "watermarks [] = []"
| "watermarks ((env, message) # rest) =
     (case carries_progress message of
        None \<Rightarrow> watermarks rest
      | Some w \<Rightarrow> w # watermarks rest)"

text \<open>The order on ledger rows: an absent row is below every row; two rows are compared
  in both components.\<close>

fun progress_le :: "(int \<times> int) option \<Rightarrow> (int \<times> int) option \<Rightarrow> bool" where
  "progress_le None r = True"
| "progress_le (Some a) None = False"
| "progress_le (Some (t, v)) (Some (t', v')) = (t \<le> t' \<and> v \<le> v')"

definition ledger_rows :: "int option \<Rightarrow> store list \<Rightarrow> (int \<times> int) option list" where
  "ledger_rows j dbs = map (\<lambda>db. ledger db j) dbs"

text \<open>The two ways to send and the two ways to receive that the FIFO property speaks of.\<close>

datatype send_call = SendMessage pyobj | SendIdentifiedMessage identified_message

fun producer_send ::
    "env \<Rightarrow> send_call \<Rightarrow> mailbox \<times> store \<Rightarrow> identified_message option outcome \<times> mailbox \<times> store" where
  "producer_send env (SendMessage message) (mb, db) = send_message env message mb db"
| "producer_send env (SendIdentifiedMessage im) (mb, db) =
     (case send_identified_message im mb of (r, mb') \<Rightarrow> (r, mb', db))"

text \<open>Whether the queued \<open>im\<close> is the one a send call stands for: the message itself, or
  the serialized event.\<close>

fun sent_as :: "env \<Rightarrow> send_call \<Rightarrow> identified_message \<Rightarrow> bool" where
  "sent_as env (SendMessage message) im = (dumps env message = Inr (serialized_message im))"
| "sent_as env (SendIdentifiedMessage im') im = (im = im')"

datatype receive_call = GetMessage | GetIdentifiedMessage

datatype delivery = Event "pyobj outcome" | Identified "identified_message option outcome"

fun consumer_receive :: "env \<Rightarrow> receive_call \<Rightarrow> mailbox \<Rightarrow> delivery \<times> mailbox" where
  "consumer_receive env GetMessage mb =
     (case get_message env mb of (r, mb') \<Rightarrow> (Event r, mb'))"
| "consumer_receive env GetIdentifiedMessage mb =
     (case get_identified_message mb of (r, mb') \<Rightarrow> (Identified r, mb'))"

fun consumer_run :: "env \<Rightarrow> receive_call list \<Rightarrow> mailbox \<Rightarrow> delivery list" where
  "consumer_run env [] mb = []"
| "consumer_run env (c # cs) mb =
     (case consumer_receive env c mb of (d, mb') \<Rightarrow> d # consumer_run env cs mb')"

text \<open>What a receive call hands to the consumer when it dequeues \<open>im\<close>.\<close>

fun delivered :: "env \<Rightarrow> receive_call \<Rightarrow> identified_message \<Rightarrow> delivery" where
  "delivered env GetMessage im =
     Event (Returns (case loads env (serialized_message im) of Inr obj \<Rightarrow> obj | Inl e \<Rightarrow> PyNone))"
| "delivered env GetIdentifiedMessage im = Identified (Returns (Some im))"


section \<open>Sample inputs\<close>

text \<open>
  A small codec in place of pickle, a store with no outage, a store whose commit fails and
  a store whose merge fails.
  \<^verbatim>\<open>N.\<close> is the pickle of \<^verbatim>\<open>None\<close>; the codec does not read events back.
\<close>

definition example_env :: env where
  "example_env =
     \<lparr>dumps = (\<lambda>obj. case obj of
                 PyNone \<Rightarrow> Inr ''N.''
               | PyBaseEvent ev \<Rightarrow> Inr (''E:'' @ key ev)
               | PyObject x \<Rightarrow> Inr (''O:'' @ x)),
      loads = (\<lambda>b. if b = ''N.'' then Inr PyNone
                    else if take 2 b = ''O:'' then Inr (PyObject (drop 2 b))
                    else Inl UnpicklingError),
      utcnow = 1000,
      fault = (\<lambda>op. None)\<rparr>"

definition outage_env :: env where
  "outage_env = example_env\<lparr>fault := (\<lambda>op. if op = Commit then Some StoreFailure else None)\<rparr>"

definition merge_outage_env :: env where
  "merge_outage_env = example_env\<lparr>fault := (\<lambda>op. if op = Merge then Some StoreFailure else None)\<rparr>"

definition empty_store :: store where
  "empty_store = \<lparr>envelopes = [], ledger = (\<lambda>j. None), next_id = 0\<rparr>"

definition example_event :: "string \<Rightarrow> int \<Rightarrow> int \<Rightarrow> pyobj" where
  "example_event k t v =
     PyBaseEvent \<lparr>key = k, event_value = ''v'', event_type = ''UNDEFINED'',
                  version = Some v, create_time = Some t\<rparr>"

definition bound_mailbox :: "int \<Rightarrow> mailbox" where
  "bound_mailbox j = set_scheduling_job_id (Some j) Mailbox_init"

section \<open>Persisting a message\<close>

lemmas session_defs = session_merge_def session_add_def session_commit_def session_rollback_def
  new_session_def upsert_progress_def insert_message_def Message_def

lemma timeout_one_expires: "\<not> float_overflow \<le> 1" "\<not> TIMEOUT_MAX < 1"
  by (simp_all add: float_overflow_def TIMEOUT_MAX_def)

lemma save_message_try_fails:
  "save_message_try env mb m s = (Inl e, s') \<Longrightarrow> committed s' = committed s"
  by (auto simp: save_message_try_def session_defs Let_def
      split: option.splits sum.splits if_splits prod.splits)

lemma save_message_try_succeeds:
  "save_message_try env mb m (new_session db) = (Inr im, s') \<Longrightarrow>
   \<exists>b. dumps env m = Inr b \<and>
     im = \<lparr>serialized_message = b, msg_id = Some (next_id db)\<rparr> \<and>
     s' = \<lparr>committed = db\<lparr>envelopes := envelopes db @
                 [\<lparr>message_id = Some (next_id db), data = b, state = Some QUEUED,
                   m_scheduling_job_id = scheduling_job_id mb, queue_time = Some (utcnow env)\<rparr>],
               ledger := (case carries_progress m of
                            Some (t, v) \<Rightarrow> (ledger db)(scheduling_job_id mb \<mapsto> (t, v))
                          | None \<Rightarrow> ledger db),
               next_id := Suc (next_id db)\<rparr>, merged = [], added = []\<rparr>"
  by (auto simp: save_message_try_def session_defs Let_def
      split: option.splits sum.splits if_splits prod.splits)

lemma save_message_to_db_raises:
  assumes "save_message_to_db env mb m db = (Raises e, db')"
  shows "db' = db"
  using assms
  by (auto simp: save_message_to_db_def provide_session_def save_message_to_db_session_def
      session_rollback_def session_commit_def new_session_def
      split: option.splits sum.splits if_splits prod.splits outcome.splits
      dest!: save_message_try_fails save_message_try_succeeds[unfolded new_session_def])

lemma save_message_to_db_returns:
  assumes "save_message_to_db env mb m db = (Returns im, db')"
  shows "\<exists>b. dumps env m = Inr b \<and>
     im = \<lparr>serialized_message = b, msg_id = Some (next_id db)\<rparr> \<and>
     db' = db\<lparr>envelopes := envelopes db @
                 [\<lparr>message_id = Some (next_id db), data = b, state = Some QUEUED,
                   m_scheduling_job_id = scheduling_job_id mb, queue_time = Some (utcnow env)\<rparr>],
               ledger := (case carries_progress m of
                            Some (t, v) \<Rightarrow> (ledger db)(scheduling_job_id mb \<mapsto> (t, v))
                          | None \<Rightarrow> ledger db),
               next_id := Suc (next_id db)\<rparr>"
  using assms
  by (auto simp: save_message_to_db_def provide_session_def save_message_to_db_session_def
      session_rollback_def session_commit_def 
      split: option.splits sum.splits if_splits prod.splits outcome.splits
      dest!: save_message_try_succeeds)

lemma save_message_to_db_not_blocks:
  "save_message_to_db env mb m db \<noteq> (Blocks, db')"
  by (auto simp: save_message_to_db_def provide_session_def save_message_to_db_session_def
      split: option.splits sum.splits if_splits prod.splits outcome.splits)

lemma save_message_try_logged:
  "save_message_try env (mb\<lparr>logged := l\<rparr>) m s = save_message_try env mb m s"
  by (simp add: save_message_try_def Let_def
      split: option.split sum.split prod.split)

lemma save_message_to_db_logged:
  "save_message_to_db env (mb\<lparr>logged := l\<rparr>) m db = save_message_to_db env mb m db"
proof -
  have "save_message_to_db_session env (mb\<lparr>logged := l\<rparr>) m = save_message_to_db_session env mb m"
    by (rule ext) (simp add: save_message_to_db_session_def save_message_try_logged)
  then show ?thesis by (simp add: save_message_to_db_def)
qed

lemma bound_mailbox_fields:
  "scheduling_job_id (bound_mailbox j) = Some j"
  "queue (bound_mailbox j) = []"
  "logged (bound_mailbox j) = []"
  by (simp_all add: bound_mailbox_def set_scheduling_job_id_def Mailbox_init_def)

lemma example_save:
  "save_message_to_db example_env (bound_mailbox 1) (example_event ''k1'' 100 1) empty_store =
     (Returns \<lparr>serialized_message = ''E:k1'', msg_id = Some 0\<rparr>,
      \<lparr>envelopes = [\<lparr>message_id = Some 0, data = ''E:k1'', state = Some QUEUED,
                      m_scheduling_job_id = Some 1, queue_time = Some 1000\<rparr>],
       ledger = (\<lambda>j. None)(Some 1 \<mapsto> (100, 1)), next_id = Suc 0\<rparr>)"
  by (simp add: save_message_to_db_def provide_session_def save_message_to_db_session_def
      save_message_try_def session_defs example_env_def bound_mailbox_def example_event_def
      empty_store_def set_scheduling_job_id_def Mailbox_init_def)

lemma example_send:
  "send_message example_env (example_event ''k1'' 100 1) (bound_mailbox 1) empty_store =
     (Returns None,
      (bound_mailbox 1)\<lparr>queue := [\<lparr>serialized_message = ''E:k1'', msg_id = Some 0\<rparr>]\<rparr>,
      \<lparr>envelopes = [\<lparr>message_id = Some 0, data = ''E:k1'', state = Some QUEUED,
                      m_scheduling_job_id = Some 1, queue_time = Some 1000\<rparr>],
       ledger = (\<lambda>j. None)(Some 1 \<mapsto> (100, 1)), next_id = Suc 0\<rparr>)"
  by (simp add: send_message_def example_save bound_mailbox_fields truthy_def queue_put_def)

lemma send_message_cases:
  "send_message env message mb db = (r, mb', db') \<Longrightarrow>
     (\<exists>e. r = Raises e \<and> db' = db \<and> queue mb' = queue mb
          \<and> scheduling_job_id mb' = scheduling_job_id mb) \<or>
     (\<exists>b. r = Returns None \<and> dumps env message = Inr b
          \<and> queue mb' = queue mb @ [\<lparr>serialized_message = b, msg_id = Some (next_id db)\<rparr>]
          \<and> scheduling_job_id mb' = scheduling_job_id mb
          \<and> db' = db\<lparr>envelopes := envelopes db @
                 [\<lparr>message_id = Some (next_id db), data = b, state = Some QUEUED,
                   m_scheduling_job_id = scheduling_job_id mb, queue_time = Some (utcnow env)\<rparr>],
               ledger := (case carries_progress message of
                            Some (t, v) \<Rightarrow> (ledger db)(scheduling_job_id mb \<mapsto> (t, v))
                          | None \<Rightarrow> ledger db),
               next_id := Suc (next_id db)\<rparr>)"
proof -
  assume a: "send_message env message mb db = (r, mb', db')"
  obtain r0 db0 where s: "save_message_to_db env mb message db = (r0, db0)"
    by (cases "save_message_to_db env mb message db")
  show ?thesis
  proof (cases r0)
    case (Returns im)
    have r: "r = Returns None" and q: "queue mb' = queue mb @ [im]"
      and j: "scheduling_job_id mb' = scheduling_job_id mb" and d: "db' = db0"
      using a s Returns
      by (auto simp: send_message_def Let_def save_message_to_db_logged queue_put_def
          split: if_splits)
    from save_message_to_db_returns[OF s[unfolded Returns]] r q j d show ?thesis
      by blast
  next
    case (Raises e)
    have r: "r = Raises e" and q: "queue mb' = queue mb"
      and j: "scheduling_job_id mb' = scheduling_job_id mb" and d: "db' = db0"
      using a s Raises
      by (auto simp: send_message_def Let_def save_message_to_db_logged split: if_splits)
    from save_message_to_db_raises[OF s[unfolded Raises]] r q j d show ?thesis
      by blast
  next
    case Blocks
    with s save_message_to_db_not_blocks show ?thesis by blast
  qed
qed

section \<open>What \<^verbatim>\<open>send_message\<close> returns\<close>

text \<open>
  Claim C1, as the spec states it: for every event accepted without a persistence failure,
  \<^verbatim>\<open>send_message\<close> returns the IdentifiedMessage built from the committed envelope.
  The code has no \<^verbatim>\<open>return\<close> statement: at the sample event the transaction builds the
  IdentifiedMessage with payload \<^verbatim>\<open>E:k1\<close> and identifier 0, and the call does not
  return it.
\<close>

theorem send_message_returns_identified_message_counterexample:
  "fst (save_message_to_db example_env (bound_mailbox 1) (example_event ''k1'' 100 1) empty_store)
     = Returns \<lparr>serialized_message = ''E:k1'', msg_id = Some 0\<rparr>
   \<and> fst (send_message example_env (example_event ''k1'' 100 1) (bound_mailbox 1) empty_store)
     \<noteq> Returns (Some \<lparr>serialized_message = ''E:k1'', msg_id = Some 0\<rparr>)"
  by (simp add: send_message_def example_save bound_mailbox_fields truthy_def)

text \<open>
  Claim C1, amended: when the transaction returns the IdentifiedMessage \<open>im\<close>,
  \<^verbatim>\<open>send_message\<close> returns \<^verbatim>\<open>None\<close>; \<open>im\<close> is appended at the tail of the in-memory
  queue, and it carries the identifier and the payload of the envelope row the store has
  just committed.
\<close>

theorem send_message_returns_none:
  assumes "fst (save_message_to_db env mb message db) = Returns im"
  shows "fst (send_message env message mb db) = Returns None
       \<and> queue (fst (snd (send_message env message mb db))) = queue mb @ [im]
       \<and> envelopes (snd (snd (send_message env message mb db))) =
           envelopes db @ [\<lparr>message_id = msg_id im, data = serialized_message im,
                            state = Some QUEUED, m_scheduling_job_id = scheduling_job_id mb,
                            queue_time = Some (utcnow env)\<rparr>]"
proof -
  obtain db' where s: "save_message_to_db env mb message db = (Returns im, db')"
    using assms by (cases "save_message_to_db env mb message db") simp
  from save_message_to_db_returns[OF s] show ?thesis
    using s by (auto simp: send_message_def Let_def save_message_to_db_logged queue_put_def)
qed

theorem send_message_returns_none_witness:
  "fst (send_message example_env (example_event ''k1'' 100 1) (bound_mailbox 1) empty_store) = Returns None
   \<and> queue (fst (snd (send_message example_env (example_event ''k1'' 100 1) (bound_mailbox 1) empty_store)))
       = [\<lparr>serialized_message = ''E:k1'', msg_id = Some 0\<rparr>]"
proof -
  have h: "fst (save_message_to_db example_env (bound_mailbox 1) (example_event ''k1'' 100 1) empty_store)
             = Returns \<lparr>serialized_message = ''E:k1'', msg_id = Some 0\<rparr>"
    by (simp add: example_save)
  from send_message_returns_none[OF h] show ?thesis
    by (simp add: bound_mailbox_fields)
qed

section \<open>Failure of the persistence transaction\<close>

lemma save_message_to_db_fault:
  assumes "(carries_progress message \<noteq> None \<and> fault env Merge \<noteq> None)
         \<or> (\<exists>e. dumps env message = Inl e)
         \<or> fault env Add \<noteq> None \<or> fault env Commit \<noteq> None"
  shows "\<exists>e. save_message_to_db env mb message db = (Raises e, db)"
  using assms
  by (auto simp: save_message_to_db_def provide_session_def save_message_to_db_session_def
      save_message_try_def session_defs Let_def
      split: option.splits sum.splits prod.splits)

lemma save_message_to_db_first_fault:
  "carries_progress message \<noteq> None \<and> fault env Merge = Some e
     \<Longrightarrow> save_message_to_db env mb message db = (Raises e, db)"
  "(carries_progress message = None \<or> fault env Merge = None) \<and> fault env Rollback = None
     \<and> dumps env message = Inl e
     \<Longrightarrow> save_message_to_db env mb message db = (Raises e, db)"
  "(carries_progress message = None \<or> fault env Merge = None) \<and> fault env Rollback = None
     \<and> (\<exists>b. dumps env message = Inr b) \<and> fault env Add = Some e
     \<Longrightarrow> save_message_to_db env mb message db = (Raises e, db)"
  "(carries_progress message = None \<or> fault env Merge = None) \<and> fault env Rollback = None
     \<and> (\<exists>b. dumps env message = Inr b) \<and> fault env Add = None \<and> fault env Commit = Some e
     \<Longrightarrow> save_message_to_db env mb message db = (Raises e, db)"
  by (auto simp: save_message_to_db_def provide_session_def save_message_to_db_session_def
      save_message_try_def session_defs Let_def
      split: option.splits sum.splits prod.splits)

lemma send_message_of_raise:
  assumes "save_message_to_db env mb message db = (Raises e, db')"
  shows "fst (send_message env message mb db) = Raises e
       \<and> snd (snd (send_message env message mb db)) = db'
       \<and> queue (fst (snd (send_message env message mb db))) = queue mb
       \<and> scheduling_job_id (fst (snd (send_message env message mb db))) = scheduling_job_id mb"
  using assms by (simp add: send_message_def Let_def save_message_to_db_logged)

text \<open>
  Claim C2: for every event, if the persistence transaction inside \<^verbatim>\<open>send_message\<close>
  fails (the merge of an event that carries progress, the serialization, the add or the
  commit fails), then \<^verbatim>\<open>send_message\<close> raises, the store is exactly what it was
  (neither the envelope row nor the ledger row is committed), and the in-memory queue is
  unchanged. The exception raised is that of the first operation that fails: always for the
  merge, and for the later operations when the rollback itself does not fail.
\<close>

theorem send_message_store_failure:
  "((carries_progress message \<noteq> None \<and> fault env Merge \<noteq> None)
      \<or> (\<exists>e. dumps env message = Inl e)
      \<or> fault env Add \<noteq> None \<or> fault env Commit \<noteq> None
    \<longrightarrow> (\<exists>e. fst (send_message env message mb db) = Raises e)
        \<and> snd (snd (send_message env message mb db)) = db
        \<and> queue (fst (snd (send_message env message mb db))) = queue mb
        \<and> scheduling_job_id (fst (snd (send_message env message mb db))) = scheduling_job_id mb)
   \<and> (carries_progress message \<noteq> None \<and> fault env Merge = Some e
        \<longrightarrow> fst (send_message env message mb db) = Raises e)
   \<and> ((carries_progress message = None \<or> fault env Merge = None) \<and> fault env Rollback = None
        \<and> dumps env message = Inl e
        \<longrightarrow> fst (send_message env message mb db) = Raises e)
   \<and> ((carries_progress message = None \<or> fault env Merge = None) \<and> fault env Rollback = None
        \<and> (\<exists>b. dumps env message = Inr b) \<and> fault env Add = Some e
        \<longrightarrow> fst (send_message env message mb db) = Raises e)
   \<and> ((carries_progress message = None \<or> fault env Merge = None) \<and> fault env Rollback = None
        \<and> (\<exists>b. dumps env message = Inr b) \<and> fault env Add = None \<and> fault env Commit = Some e
        \<longrightarrow> fst (send_message env message mb db) = Raises e)"
proof (intro conjI impI)
  assume "(carries_progress message \<noteq> None \<and> fault env Merge \<noteq> None)
      \<or> (\<exists>e. dumps env message = Inl e)
      \<or> fault env Add \<noteq> None \<or> fault env Commit \<noteq> None"
  from save_message_to_db_fault[OF this] obtain e'
    where r: "save_message_to_db env mb message db = (Raises e', db)" by blast
  note s = send_message_of_raise[OF r]
  from s show "\<exists>e. fst (send_message env message mb db) = Raises e" by blast
  from s show "snd (snd (send_message env message mb db)) = db" by blast
  from s show "queue (fst (snd (send_message env message mb db))) = queue mb" by blast
  from s show "scheduling_job_id (fst (snd (send_message env message mb db))) = scheduling_job_id mb"
    by blast
next
  assume "carries_progress message \<noteq> None \<and> fault env Merge = Some e"
  from send_message_of_raise[OF save_message_to_db_first_fault(1)[OF this]]
  show "fst (send_message env message mb db) = Raises e" by blast
next
  assume "(carries_progress message = None \<or> fault env Merge = None) \<and> fault env Rollback = None
        \<and> dumps env message = Inl e"
  from send_message_of_raise[OF save_message_to_db_first_fault(2)[OF this]]
  show "fst (send_message env message mb db) = Raises e" by blast
next
  assume "(carries_progress message = None \<or> fault env Merge = None) \<and> fault env Rollback = None
        \<and> (\<exists>b. dumps env message = Inr b) \<and> fault env Add = Some e"
  from send_message_of_raise[OF save_message_to_db_first_fault(3)[OF this]]
  show "fst (send_message env message mb db) = Raises e" by blast
next
  assume "(carries_progress message = None \<or> fault env Merge = None) \<and> fault env Rollback = None
        \<and> (\<exists>b. dumps env message = Inr b) \<and> fault env Add = None \<and> fault env Commit = Some e"
  from send_message_of_raise[OF save_message_to_db_first_fault(4)[OF this]]
  show "fst (send_message env message mb db) = Raises e" by blast
qed

theorem send_message_store_failure_witness:
  "fault outage_env Commit = Some StoreFailure
   \<and> fst (send_message outage_env (example_event ''k1'' 100 1) (bound_mailbox 1) empty_store)
       = Raises StoreFailure
   \<and> snd (snd (send_message outage_env (example_event ''k1'' 100 1) (bound_mailbox 1) empty_store))
       = empty_store
   \<and> queue (fst (snd (send_message outage_env (example_event ''k1'' 100 1) (bound_mailbox 1) empty_store)))
       = []
   \<and> fault merge_outage_env Merge = Some StoreFailure
   \<and> fst (send_message merge_outage_env (example_event ''k1'' 100 1) (bound_mailbox 1) empty_store)
       = Raises StoreFailure
   \<and> snd (snd (send_message merge_outage_env (example_event ''k1'' 100 1) (bound_mailbox 1)
        empty_store)) = empty_store"
proof -
  have c: "fault outage_env Commit = Some StoreFailure" "fault outage_env Merge = None"
    "fault outage_env Add = None" "fault outage_env Rollback = None"
    "dumps outage_env (example_event ''k1'' 100 1) = Inr ''E:k1''"
    by (simp_all add: outage_env_def example_env_def example_event_def)
  have m: "fault merge_outage_env Merge = Some StoreFailure"
    "carries_progress (example_event ''k1'' 100 1) = Some (100, 1)"
    by (simp_all add: merge_outage_env_def example_event_def)
  from send_message_store_failure[where env = outage_env and e = StoreFailure
         and message = "example_event ''k1'' 100 1" and mb = "bound_mailbox 1" and db = empty_store]
       send_message_store_failure[where env = merge_outage_env and e = StoreFailure
         and message = "example_event ''k1'' 100 1" and mb = "bound_mailbox 1" and db = empty_store]
  show ?thesis using c m by (simp add: bound_mailbox_fields)
qed

section \<open>The progress ledger\<close>



section \<open>Receiving\<close>

text \<open>
  Claim C5: for every timeout value, \<^verbatim>\<open>get_message_with_timeout\<close> never raises. On an
  empty queue, with a timeout that expires (every value but \<^verbatim>\<open>None\<close> and \<^verbatim>\<open>nan\<close>, for
  which the call never returns), it returns \<^verbatim>\<open>None\<close> and leaves the mailbox as it was;
  and whenever the queue's \<^verbatim>\<open>get\<close> raises, the timeout \<^verbatim>\<open>Empty\<close> included, the
  result is \<^verbatim>\<open>None\<close> and nothing is popped.
\<close>

theorem get_message_with_timeout_never_raises:
  "fst (get_message_with_timeout t mb) \<noteq> Raises e
   \<and> (queue mb = [] \<and> t \<noteq> TimeoutNone \<and> t \<noteq> TimeoutNaN
        \<longrightarrow> get_message_with_timeout t mb = (Returns None, mb))
   \<and> (queue mb = [] \<and> (t = TimeoutNone \<or> t = TimeoutNaN)
        \<longrightarrow> get_message_with_timeout t mb = (Blocks, mb))
   \<and> (fst (queue_get_timeout (queue mb) t) = Raises e
        \<longrightarrow> get_message_with_timeout t mb = (Returns None, mb))"
  by (cases t; cases "queue mb")
     (auto simp: get_message_with_timeout_def queue_get_timeout_def queue_get_def)

theorem get_message_with_timeout_never_raises_witness:
  "queue Mailbox_init = [] \<and> TimeoutNumber 5 \<noteq> TimeoutNone \<and> TimeoutNumber 5 \<noteq> TimeoutNaN
   \<and> get_message_with_timeout (TimeoutNumber 5) Mailbox_init = (Returns None, Mailbox_init)
   \<and> get_message_with_timeout TimeoutNaN Mailbox_init = (Blocks, Mailbox_init)
   \<and> fst (queue_get_timeout (queue (bound_mailbox 1)) (TimeoutNumber (- 1))) = Raises ValueError
   \<and> get_message_with_timeout (TimeoutNumber (- 1)) (bound_mailbox 1) = (Returns None, bound_mailbox 1)
   \<and> fst (queue_get_timeout
            (queue (Mailbox_init\<lparr>queue := [\<lparr>serialized_message = ''N.'', msg_id = Some 3\<rparr>]\<rparr>))
            (TimeoutNumber (2 ^ 1024))) = Raises OverflowError
   \<and> get_message_with_timeout (TimeoutNumber (2 ^ 1024))
        (Mailbox_init\<lparr>queue := [\<lparr>serialized_message = ''N.'', msg_id = Some 3\<rparr>]\<rparr>)
       = (Returns None, Mailbox_init\<lparr>queue := [\<lparr>serialized_message = ''N.'', msg_id = Some 3\<rparr>]\<rparr>)"
proof -
  have q: "queue Mailbox_init = []" by (simp add: Mailbox_init_def)
  have r: "fst (queue_get_timeout (queue (bound_mailbox 1)) (TimeoutNumber (- 1))) = Raises ValueError"
    by (simp add: queue_get_timeout_def)
  have o: "fst (queue_get_timeout
            (queue (Mailbox_init\<lparr>queue := [\<lparr>serialized_message = ''N.'', msg_id = Some 3\<rparr>]\<rparr>))
            (TimeoutNumber (2 ^ 1024))) = Raises OverflowError"
    by (simp add: queue_get_timeout_def float_overflow_def)
  from get_message_with_timeout_never_raises[of "TimeoutNumber 5" Mailbox_init Empty]
       get_message_with_timeout_never_raises[of TimeoutNaN Mailbox_init Empty]
       get_message_with_timeout_never_raises[of "TimeoutNumber (- 1)" "bound_mailbox 1" ValueError]
       get_message_with_timeout_never_raises[of "TimeoutNumber (2 ^ 1024)"
         "Mailbox_init\<lparr>queue := [\<lparr>serialized_message = ''N.'', msg_id = Some 3\<rparr>]\<rparr>"
         OverflowError]
  show ?thesis using q r o by simp
qed

text \<open>
  Claim C6: when the payload of the message at the front of the queue fails to deserialize,
  \<^verbatim>\<open>get_message\<close> does not raise: it returns \<^verbatim>\<open>None\<close>, logs the error, removes
  the message from the queue (it is not put back), and leaves the other queued messages as
  they were, in their order.
\<close>

theorem get_message_decode_failure:
  assumes "queue mb = im # rest"
      and "loads env (serialized_message im) = Inl e"
  shows "get_message env mb = (Returns PyNone, mb\<lparr>queue := rest, logged := logged mb @ [Error e]\<rparr>)"
  using assms by (simp add: get_message_def queue_get_def)

theorem get_message_decode_failure_witness:
  "get_message example_env
     ((bound_mailbox 1)\<lparr>queue := [\<lparr>serialized_message = ''garbage'', msg_id = Some 7\<rparr>,
                                   \<lparr>serialized_message = ''O:job'', msg_id = Some 8\<rparr>]\<rparr>)
   = (Returns PyNone,
      (bound_mailbox 1)\<lparr>queue := [\<lparr>serialized_message = ''O:job'', msg_id = Some 8\<rparr>],
                         logged := [Error UnpicklingError]\<rparr>)"
proof -
  have q: "queue ((bound_mailbox 1)\<lparr>queue := [\<lparr>serialized_message = ''garbage'', msg_id = Some 7\<rparr>,
                                    \<lparr>serialized_message = ''O:job'', msg_id = Some 8\<rparr>]\<rparr>)
           = \<lparr>serialized_message = ''garbage'', msg_id = Some 7\<rparr>
             # [\<lparr>serialized_message = ''O:job'', msg_id = Some 8\<rparr>]"
    by simp
  have l: "loads example_env (serialized_message \<lparr>serialized_message = ''garbage'', msg_id = Some 7\<rparr>)
           = Inl UnpicklingError"
    by (simp add: example_env_def)
  from get_message_decode_failure[OF q l] show ?thesis
    by (simp add: bound_mailbox_fields)
qed


text \<open>
  Claim C10: a payload that deserializes to \<^verbatim>\<open>None\<close> and a payload that fails to
  deserialize give the caller of \<^verbatim>\<open>get_message\<close> the same result, \<^verbatim>\<open>None\<close>, and
  leave the same queue behind.
\<close>

theorem get_message_none_ambiguous:
  assumes "loads env (serialized_message im_none) = Inr PyNone"
      and "loads env (serialized_message im_bad) = Inl e"
  shows "fst (get_message env (mb\<lparr>queue := im_none # rest\<rparr>)) = Returns PyNone
       \<and> fst (get_message env (mb\<lparr>queue := im_bad # rest\<rparr>)) = Returns PyNone
       \<and> queue (snd (get_message env (mb\<lparr>queue := im_none # rest\<rparr>))) = rest
       \<and> queue (snd (get_message env (mb\<lparr>queue := im_bad # rest\<rparr>))) = rest"
  using assms by (simp add: get_message_def queue_get_def)

theorem get_message_none_ambiguous_witness:
  "loads example_env (serialized_message \<lparr>serialized_message = ''N.'', msg_id = Some 3\<rparr>) = Inr PyNone
   \<and> loads example_env (serialized_message \<lparr>serialized_message = ''garbage'', msg_id = Some 3\<rparr>)
       = Inl UnpicklingError
   \<and> fst (get_message example_env
        (Mailbox_init\<lparr>queue := [\<lparr>serialized_message = ''N.'', msg_id = Some 3\<rparr>]\<rparr>))
     = fst (get_message example_env
        (Mailbox_init\<lparr>queue := [\<lparr>serialized_message = ''garbage'', msg_id = Some 3\<rparr>]\<rparr>))"
proof -
  have a: "loads example_env (serialized_message \<lparr>serialized_message = ''N.'', msg_id = Some 3\<rparr>)
             = Inr PyNone"
    by (simp add: example_env_def)
  have b: "loads example_env (serialized_message \<lparr>serialized_message = ''garbage'', msg_id = Some 3\<rparr>)
             = Inl UnpicklingError"
    by (simp add: example_env_def)
  from get_message_none_ambiguous[OF a b, where mb = Mailbox_init and rest = "[]"] a b show ?thesis
    by simp
qed

section \<open>Replay\<close>

text \<open>
  Claim C9: \<^verbatim>\<open>send_identified_message\<close> appends the message at the tail of the
  in-memory queue and does nothing else: under every condition of the store (an outage
  included) the store is unchanged, and so are \<^verbatim>\<open>scheduling_job_id\<close>, the log and the
  messages already queued, in their order.
\<close>

theorem send_identified_message_frame:
  "send_identified_message im mb = (Returns None, mb\<lparr>queue := queue mb @ [im]\<rparr>)
   \<and> producer_send env (SendIdentifiedMessage im) (mb, db)
       = (Returns None, mb\<lparr>queue := queue mb @ [im]\<rparr>, db)
   \<and> scheduling_job_id (snd (send_identified_message im mb)) = scheduling_job_id mb
   \<and> logged (snd (send_identified_message im mb)) = logged mb
   \<and> take (length (queue mb)) (queue (snd (send_identified_message im mb))) = queue mb"
  by (simp add: send_identified_message_def queue_put_def)

section \<open>The ledger along a sequence of sends\<close>

lemma send_message_ledger_step:
  assumes "send_message env m mb db = (r, mb', db')"
  shows "scheduling_job_id mb' = scheduling_job_id mb
       \<and> (ledger db' (scheduling_job_id mb) = ledger db (scheduling_job_id mb)
          \<or> (\<exists>w. carries_progress m = Some w \<and> ledger db' (scheduling_job_id mb) = Some w))"
  using send_message_cases[OF assms]
  by (auto split: option.splits)

lemma example_send_event:
  assumes "truthy (scheduling_job_id mb)"
  shows "send_message example_env (example_event k t v) mb db =
     (Returns None,
      mb\<lparr>queue := queue mb @ [\<lparr>serialized_message = ''E:'' @ k, msg_id = Some (next_id db)\<rparr>]\<rparr>,
      db\<lparr>envelopes := envelopes db @
            [\<lparr>message_id = Some (next_id db), data = ''E:'' @ k, state = Some QUEUED,
              m_scheduling_job_id = scheduling_job_id mb, queue_time = Some 1000\<rparr>],
         ledger := (ledger db)(scheduling_job_id mb \<mapsto> (t, v)),
         next_id := Suc (next_id db)\<rparr>)"
  using assms
  by (simp add: send_message_def save_message_to_db_def provide_session_def
      save_message_to_db_session_def save_message_try_def session_defs example_env_def
      example_event_def queue_put_def)

lemma progress_le_refl: "progress_le r r"
  by (cases r) auto

lemma producer_run_rows:
  "r \<in> set (ledger_rows (scheduling_job_id mb) (producer_run sends mb db)) \<Longrightarrow>
   r = ledger db (scheduling_job_id mb) \<or> (\<exists>w \<in> set (watermarks sends). r = Some w)"
proof (induction sends arbitrary: mb db)
  case Nil
  then show ?case by (simp add: ledger_rows_def)
next
  case (Cons a sends)
  obtain env m where a: "a = (env, m)" by (cases a)
  obtain r' mb' db' where s: "send_message env m mb db = (r', mb', db')"
    by (cases "send_message env m mb db")
  note step = send_message_ledger_step[OF s]
  from Cons.prems a s
  have "r = ledger db' (scheduling_job_id mb)
        \<or> r \<in> set (ledger_rows (scheduling_job_id mb') (producer_run sends mb' db'))"
    using step by (auto simp: ledger_rows_def)
  then show ?case
  proof
    assume "r = ledger db' (scheduling_job_id mb)"
    with step a show ?thesis by (auto split: option.splits)
  next
    assume "r \<in> set (ledger_rows (scheduling_job_id mb') (producer_run sends mb' db'))"
    from Cons.IH[OF this] step a show ?thesis by (auto split: option.splits)
  qed
qed

lemma producer_run_sorted:
  "sorted_wrt progress_le (ledger db (scheduling_job_id mb) # map Some (watermarks sends)) \<Longrightarrow>
   sorted_wrt progress_le (ledger_rows (scheduling_job_id mb) (db # producer_run sends mb db))"
proof (induction sends arbitrary: mb db)
  case Nil
  then show ?case by (simp add: ledger_rows_def)
next
  case (Cons a sends)
  obtain env m where a: "a = (env, m)" by (cases a)
  obtain r' mb' db' where s: "send_message env m mb db = (r', mb', db')"
    by (cases "send_message env m mb db")
  note step = send_message_ledger_step[OF s]
  let ?k = "scheduling_job_id mb"
  have k: "scheduling_job_id mb' = ?k" using step by simp
  have next_sorted: "sorted_wrt progress_le (ledger db' ?k # map Some (watermarks sends))"
    using step Cons.prems a by (auto split: option.splits)
  have tail: "sorted_wrt progress_le (ledger_rows ?k (db' # producer_run sends mb' db'))"
    using Cons.IH[where mb = mb' and db = db'] next_sorted k by simp
  have first: "progress_le (ledger db ?k) (ledger db' ?k)"
    using step Cons.prems a by (auto simp: progress_le_refl split: option.splits)
  have later: "progress_le (ledger db ?k) y"
    if "y \<in> set (ledger_rows ?k (producer_run sends mb' db'))" for y
  proof -
    from that k producer_run_rows[where r = y and mb = mb' and sends = sends and db = db']
    have "y = ledger db' ?k \<or> (\<exists>w \<in> set (watermarks sends). y = Some w)" by simp
    then show ?thesis
      using first Cons.prems a by (auto split: option.splits)
  qed
  show ?case
    using tail first later a s by (auto simp: ledger_rows_def)
qed

text \<open>
  Claim C4, as the spec states it: for any sequence of events sent by one producer bound to
  job \<open>J\<close>, the stored \<open>(last_event_time, last_event_version)\<close> never decreases. The code
  overwrites the row with the pair of each event, whatever the row holds: after the events
  \<open>(200, 2)\<close> and then \<open>(100, 1)\<close>, sent by a mailbox bound to job 1, the row has gone
  from \<open>(200, 2)\<close> down to \<open>(100, 1)\<close>.
\<close>

theorem ledger_nondecreasing_counterexample:
  "ledger_rows (Some 1)
     (producer_run [(example_env, example_event ''k1'' 200 2),
                    (example_env, example_event ''k2'' 100 1)] (bound_mailbox 1) empty_store)
   = [Some (200, 2), Some (100, 1)]
   \<and> \<not> progress_le (Some (200, 2)) (Some (100, 1))"
  by (simp add: example_send_event bound_mailbox_fields truthy_def ledger_rows_def)

text \<open>
  Claim C4, amended: for any sequence of events sent via \<^verbatim>\<open>send_message\<close> by one
  producer bound to job \<open>J\<close>, if the pairs \<open>(create_time, version)\<close> of the events are
  non-decreasing in send order and none is below the row already stored, then the stored row
  never decreases (whichever of the calls fail); and after a successful \<^verbatim>\<open>send_message\<close>
  of an event with \<open>(t, v)\<close> the row of \<open>J\<close> is exactly \<open>(t, v)\<close>, so that
  \<open>last_event_time \<ge> t\<close> and \<open>last_event_version \<ge> v\<close>.
\<close>

theorem ledger_nondecreasing_for_ordered_events:
  "(scheduling_job_id mb = Some j
      \<and> sorted_wrt progress_le (ledger db (Some j) # map Some (watermarks sends))
    \<longrightarrow> sorted_wrt progress_le (ledger_rows (Some j) (db # producer_run sends mb db)))
   \<and> (scheduling_job_id mb = Some j
      \<and> send_message env (PyBaseEvent ev) mb db = (Returns x, mb', db')
      \<and> create_time ev = Some t \<and> version ev = Some v
    \<longrightarrow> ledger db' (Some j) = Some (t, v)
        \<and> progress_le (Some (t, v)) (ledger db' (Some j)))"
proof (intro conjI impI)
  assume "scheduling_job_id mb = Some j
      \<and> sorted_wrt progress_le (ledger db (Some j) # map Some (watermarks sends))"
  then show "sorted_wrt progress_le (ledger_rows (Some j) (db # producer_run sends mb db))"
    using producer_run_sorted[where db = db and mb = mb and sends = sends] by simp
next
  assume h: "scheduling_job_id mb = Some j
      \<and> send_message env (PyBaseEvent ev) mb db = (Returns x, mb', db')
      \<and> create_time ev = Some t \<and> version ev = Some v"
  then have s: "send_message env (PyBaseEvent ev) mb db = (Returns x, mb', db')" by simp
  from send_message_cases[OF s] h show l: "ledger db' (Some j) = Some (t, v)"
    by auto
  then show "progress_le (Some (t, v)) (ledger db' (Some j))" by simp
qed

theorem ledger_nondecreasing_for_ordered_events_witness:
  "sorted_wrt progress_le (ledger_rows (Some 1)
     (empty_store # producer_run [(example_env, example_event ''k1'' 100 1),
                    (outage_env, example_event ''k2'' 150 2),
                    (example_env, example_event ''k3'' 200 2)] (bound_mailbox 1) empty_store))
   \<and> ledger (snd (snd (send_message example_env (example_event ''k1'' 100 1) (bound_mailbox 1)
        empty_store))) (Some 1) = Some (100, 1)"
proof -
  have j: "scheduling_job_id (bound_mailbox 1) = Some 1" by (simp add: bound_mailbox_fields)
  have w: "sorted_wrt progress_le (ledger empty_store (Some 1) # map Some (watermarks
             [(example_env, example_event ''k1'' 100 1),
              (outage_env, example_event ''k2'' 150 2),
              (example_env, example_event ''k3'' 200 2)]))"
    by (simp add: example_event_def empty_store_def)
  have e: "create_time \<lparr>key = ''k1'', event_value = ''v'', event_type = ''UNDEFINED'',
             version = Some 1, create_time = Some 100\<rparr> = Some 100
         \<and> version \<lparr>key = ''k1'', event_value = ''v'', event_type = ''UNDEFINED'',
             version = Some 1, create_time = Some 100\<rparr> = Some 1" by simp
  from ledger_nondecreasing_for_ordered_events[where mb = "bound_mailbox 1" and j = 1
      and db = empty_store and env = example_env and x = None and t = 100 and v = 1
      and sends = "[(example_env, example_event ''k1'' 100 1),
              (outage_env, example_event ''k2'' 150 2),
              (example_env, example_event ''k3'' 200 2)]"
      and ev = "\<lparr>key = ''k1'', event_value = ''v'', event_type = ''UNDEFINED'',
             version = Some 1, create_time = Some 100\<rparr>"]
    j w e example_send[unfolded example_event_def]
  show ?thesis
    by (simp add: example_send)
qed

section \<open>First in, first out\<close>

lemma producer_send_appends:
  assumes "producer_send env s (mb, db) = (Returns r, mb', db')"
  shows "\<exists>im. sent_as env s im \<and> queue mb' = queue mb @ [im]"
proof (cases s)
  case (SendMessage message)
  with assms have "send_message env message mb db = (Returns r, mb', db')" by simp
  from send_message_cases[OF this] SendMessage show ?thesis by auto
next
  case (SendIdentifiedMessage im)
  with assms show ?thesis
    by (auto simp: send_identified_message_def queue_put_def)
qed

lemma consumer_receive_front:
  assumes "queue mb = im # rest"
  shows "fst (consumer_receive env c mb) = delivered env c im
       \<and> queue (snd (consumer_receive env c mb)) = rest"
  using assms
  by (cases c)
     (auto simp: get_message_def queue_get_def get_identified_message_def
        get_message_with_timeout_def queue_get_timeout_def timeout_one_expires
        split: sum.splits)

lemma consumer_run_in_queue_order:
  "length cs \<le> length (queue mb) \<Longrightarrow>
   consumer_run env cs mb = map2 (delivered env) cs (queue mb)"
proof (induction cs arbitrary: mb)
  case Nil
  then show ?case by simp
next
  case (Cons c cs)
  then obtain im rest where q: "queue mb = im # rest"
    by (cases "queue mb") auto
  obtain d mb' where r: "consumer_receive env c mb = (d, mb')"
    by (cases "consumer_receive env c mb")
  from consumer_receive_front[OF q, of env c] r
  have d: "d = delivered env c im" and q': "queue mb' = rest" by simp_all
  from Cons.prems q q' have "length cs \<le> length (queue mb')" by simp
  from Cons.IH[OF this] r d q q' show ?case by simp
qed

text \<open>
  Claim C8: if one producer sends \<open>e1\<close> and then \<open>e2\<close> through the same mailbox, each by
  \<^verbatim>\<open>send_message\<close> or \<^verbatim>\<open>send_identified_message\<close>, and both calls return, then the
  queue is the earlier queue followed by the message of \<open>e1\<close> and then the message of
  \<open>e2\<close>; a single consumer that dequeues with any mix of \<^verbatim>\<open>get_message\<close> and
  \<^verbatim>\<open>get_identified_message\<close> receives the queued messages in that order, so \<open>e1\<close> in
  the call just before the one that receives \<open>e2\<close>.
\<close>

theorem single_pair_fifo:
  assumes "producer_send env1 s1 (mb, db) = (Returns r1, mb1, db1)"
      and "producer_send env2 s2 (mb1, db1) = (Returns r2, mb2, db2)"
  shows "\<exists>im1 im2. sent_as env1 s1 im1 \<and> sent_as env2 s2 im2
           \<and> queue mb2 = queue mb @ [im1, im2]
           \<and> (\<forall>cs. length cs = length (queue mb) + 2 \<longrightarrow>
                consumer_run env cs mb2 = map2 (delivered env) cs (queue mb @ [im1, im2]))"
proof -
  from producer_send_appends[OF assms(1)] obtain im1
    where 1: "sent_as env1 s1 im1" "queue mb1 = queue mb @ [im1]" by blast
  from producer_send_appends[OF assms(2)] obtain im2
    where 2: "sent_as env2 s2 im2" "queue mb2 = queue mb1 @ [im2]" by blast
  have q: "queue mb2 = queue mb @ [im1, im2]" using 1 2 by simp
  have "consumer_run env cs mb2 = map2 (delivered env) cs (queue mb @ [im1, im2])"
    if "length cs = length (queue mb) + 2" for cs
    using consumer_run_in_queue_order[of cs mb2 env] that q by simp
  with 1 2 q show ?thesis by blast
qed

theorem single_pair_fifo_witness:
  "consumer_run example_env [GetMessage, GetIdentifiedMessage]
     (fst (snd (producer_send example_env
        (SendIdentifiedMessage \<lparr>serialized_message = ''O:b'', msg_id = Some 9\<rparr>)
        (snd (producer_send example_env (SendMessage (PyObject ''a''))
               (bound_mailbox 1, empty_store))))))
   = [Event (Returns (PyObject ''a'')),
      Identified (Returns (Some \<lparr>serialized_message = ''O:b'', msg_id = Some 9\<rparr>))]"
proof -
  obtain mb1 db1 where 1: "producer_send example_env (SendMessage (PyObject ''a''))
               (bound_mailbox 1, empty_store) = (Returns None, mb1, db1)"
    by (simp add: send_message_def save_message_to_db_def provide_session_def
      save_message_to_db_session_def save_message_try_def session_defs example_env_def
      bound_mailbox_fields truthy_def)
  obtain mb2 where 2: "producer_send example_env
        (SendIdentifiedMessage \<lparr>serialized_message = ''O:b'', msg_id = Some 9\<rparr>) (mb1, db1)
        = (Returns None, mb2, db1)"
    by (simp add: send_identified_message_def)
  from single_pair_fifo[OF 1 2, of example_env] obtain im1 im2 where
    s1: "sent_as example_env (SendMessage (PyObject ''a'')) im1" and
    s2: "sent_as example_env (SendIdentifiedMessage \<lparr>serialized_message = ''O:b'', msg_id = Some 9\<rparr>) im2" and
    run: "\<forall>cs. length cs = length (queue (bound_mailbox 1)) + 2 \<longrightarrow>
            consumer_run example_env cs mb2
              = map2 (delivered example_env) cs (queue (bound_mailbox 1) @ [im1, im2])"
    by blast
  from s1 have p1: "serialized_message im1 = ''O:a''" by (simp add: example_env_def)
  from s2 have p2: "im2 = \<lparr>serialized_message = ''O:b'', msg_id = Some 9\<rparr>" by simp
  have len: "length [GetMessage, GetIdentifiedMessage] = length (queue (bound_mailbox 1)) + 2"
    by (simp add: bound_mailbox_fields)
  from run[rule_format, OF len]
  have "consumer_run example_env [GetMessage, GetIdentifiedMessage] mb2
      = map2 (delivered example_env) [GetMessage, GetIdentifiedMessage]
          (queue (bound_mailbox 1) @ [im1, im2])" .
  with p1 p2 have "consumer_run example_env [GetMessage, GetIdentifiedMessage] mb2
      = [Event (Returns (PyObject ''a'')),
      Identified (Returns (Some \<lparr>serialized_message = ''O:b'', msg_id = Some 9\<rparr>))]"
    by (simp add: bound_mailbox_fields example_env_def)
  with 1 2 show ?thesis by simp
qed

end
